theory Spec2Isabelle
  imports Complex_Main
begin

section \<open>Potential-fields notebook: values, errors and the plotting state\<close>

text \<open>
  The notebook \<^verbatim>\<open>8-Motion_planning-1-Potential_Fields.ipynb\<close> defines three functions,
  \<^verbatim>\<open>repulsive_force\<close>, \<^verbatim>\<open>attractive_force\<close> and \<^verbatim>\<open>main\<close>. They are embedded
  below statement by statement.

  A 2x1 numpy column vector is a pair of reals, a 2xN matrix is the list of its columns.
  The float64 entries of the arrays are real numbers. The definitions
  \<open>repulsive_force\<close> and \<open>main\<close> compute with them exactly; they agree with the
  program wherever no comparison is decided by rounding, as at the inputs evaluated below.
  Where rounding matters, \<open>repulsive_force_fl\<close> carries the rounding of every arithmetic
  operation as a parameter, and \<open>rne53\<close> is the rounding of float64.
\<close>

type_synonym vec2 = "real \<times> real"

type_synonym matrix2 = "vec2 list"

text \<open>The exceptions the three functions can raise.\<close>

datatype error = TypeError | IndexError

text \<open>
  A variable that holds either \<^verbatim>\<open>None\<close> or a 2x1 array (\<^verbatim>\<open>FRep\<close>, \<^verbatim>\<open>FAtt\<close>,
  \<^verbatim>\<open>FTotal\<close>).
\<close>

datatype pyval = PNone | PArray vec2

text \<open>
  A matplotlib artist as \<^verbatim>\<open>plot(xs, ys, fmt)\<close> creates it, identified with its data,
  and the process state the functions act on: the artists of the current figure. The field \<open>attractive_calls\<close> is
  instrumentation and no variable of the source: the loop body appends the argument
  \<^verbatim>\<open>GoalError\<close> to it each time it invokes \<^verbatim>\<open>attractive_force\<close>, so that a statement
  about the invocations can be made. An exception leaves the state as it was when raised.
\<close>

datatype artist = Line2D "real list" "real list" string

record world =
  figure :: "artist list"
  attractive_calls :: "vec2 list"

text \<open>\<^verbatim>\<open>plt.plot(xs, ys, fmt)\<close>: adds one line to the figure and returns the list holding it.\<close>

definition plt_plot :: "real list \<Rightarrow> real list \<Rightarrow> string \<Rightarrow> world \<Rightarrow> artist list \<times> world" where
  "plt_plot xs ys fmt w =
     ([Line2D xs ys fmt], w\<lparr>figure := figure w @ [Line2D xs ys fmt]\<rparr>)"

text \<open>\<^verbatim>\<open>artist.remove()\<close>: takes the artist off the figure.\<close>

definition artist_remove :: "artist \<Rightarrow> world \<Rightarrow> world" where
  "artist_remove a w = w\<lparr>figure := remove1 a (figure w)\<rparr>"

text \<open>\<^verbatim>\<open>xs.pop(0)\<close>: IndexError on the empty list.\<close>

definition pop0 :: "'a list \<Rightarrow> error + ('a \<times> 'a list)" where
  "pop0 xs = (case xs of [] \<Rightarrow> Inl IndexError | x # rest \<Rightarrow> Inr (x, rest))"

subsection \<open>The operators applied to values that may be None\<close>

text \<open>
  \<^verbatim>\<open>x /= None\<close>. For \<^verbatim>\<open>x = None\<close> neither operand implements the division, for an
  array numpy finds no loop of \<^verbatim>\<open>true_divide\<close> for NoneType: a TypeError both times.
\<close>

fun itruediv_None :: "pyval \<Rightarrow> error + pyval" where
  "itruediv_None PNone = Inl TypeError"
| "itruediv_None (PArray v) = Inl TypeError"

text \<open>\<^verbatim>\<open>x += y\<close> for an array \<^verbatim>\<open>x\<close>: elementwise, a TypeError when \<^verbatim>\<open>y\<close> is None.\<close>

fun ndarray_iadd :: "vec2 \<Rightarrow> pyval \<Rightarrow> error + vec2" where
  "ndarray_iadd x PNone = Inl TypeError"
| "ndarray_iadd x (PArray f) = Inr (fst x + fst f, snd x + snd f)"

text \<open>\<^verbatim>\<open>y[i, 0]\<close>: None is not subscriptable; a 2x1 array has the rows 0 and 1.\<close>

fun getitem :: "pyval \<Rightarrow> nat \<Rightarrow> error + real" where
  "getitem PNone i = Inl TypeError"
| "getitem (PArray f) i =
     (if i = 0 then Inr (fst f) else if i = 1 then Inr (snd f) else Inl IndexError)"

text \<open>\<^verbatim>\<open>linalg.norm\<close> of a 2x1 array, and \<^verbatim>\<open>np.arctan2\<close>.\<close>

definition linalg_norm :: "vec2 \<Rightarrow> real" where
  "linalg_norm v = sqrt ((fst v)\<^sup>2 + (snd v)\<^sup>2)"

definition arctan2 :: "real \<Rightarrow> real \<Rightarrow> real" where
  "arctan2 y x =
     (if 0 < x then arctan (y / x)
      else if x < 0 \<and> 0 \<le> y then arctan (y / x) + pi
      else if x < 0 then arctan (y / x) - pi
      else if 0 < y then pi / 2
      else if y < 0 then - (pi / 2)
      else 0)"

section \<open>repulsive\_force and attractive\_force\<close>

text \<open>
  \<^verbatim>\<open>
  q = xRobot - Map
  r = np.sqrt(np.sum(q**2, axis=0))
  iInfluential = np.where(r < RadiusOfInfluence)[0]
  if iInfluential.shape[0] > 0:
      q = q[:, iInfluential]
      r = r[iInfluential]
      FRep = None
      hInfluentialObstacles = plt.plot(Map[0,iInfluential],Map[1,iInfluential],'kx')
  else:
      FRep = None
      hInfluentialObstacles = None
  return FRep, hInfluentialObstacles
  \<close>
\<close>

definition repulsive_force ::
  "vec2 \<Rightarrow> matrix2 \<Rightarrow> real \<Rightarrow> real \<Rightarrow> world \<Rightarrow> (error + pyval \<times> artist list option) \<times> world" where
  "repulsive_force xRobot Map RadiusOfInfluence KObstacles w =
     (let q = map (\<lambda>ob. (fst xRobot - fst ob, snd xRobot - snd ob)) Map;
          r = map (\<lambda>v. sqrt ((fst v)\<^sup>2 + (snd v)\<^sup>2)) q;
          iInfluential = filter (\<lambda>i. r ! i < RadiusOfInfluence) [0..<length r]
      in if length iInfluential > 0 then
           (let q' = map (\<lambda>i. q ! i) iInfluential;
                r' = map (\<lambda>i. r ! i) iInfluential;
                FRep = PNone;
                hw = plt_plot (map (\<lambda>i. fst (Map ! i)) iInfluential)
                              (map (\<lambda>i. snd (Map ! i)) iInfluential) ''kx'' w
            in (Inr (FRep, Some (fst hw)), snd hw))
         else
           (let FRep = PNone;
                hInfluentialObstacles = None
            in (Inr (FRep, hInfluentialObstacles), w)))"

text \<open>
  The rounding of float64: to the nearest number with a significand of 53 bits, a tie to
  the even significand. The exponent is not bounded, so this is float64 where nothing
  overflows or underflows.
\<close>

definition rne53 :: "real \<Rightarrow> real" where
  "rne53 x =
     (if x = 0 then 0
      else
        (let e = \<lfloor>log 2 \<bar>x\<bar>\<rfloor> - 52;
             m = \<bar>x\<bar> / 2 powr (of_int e);
             n = \<lfloor>m\<rfloor>;
             n' = (if m - of_int n < 1 / 2 then n
                   else if 1 / 2 < m - of_int n then n + 1
                   else if even n then n else n + 1)
         in sgn x * of_int n' * 2 powr (of_int e)))"

text \<open>
  \<^verbatim>\<open>repulsive_force\<close> once more, statement by statement, with the arithmetic as the
  arrays perform it: each of the subtraction, the squares, the sum of the two rows and the
  square root returns the rounding \<open>rnd\<close> of the exact result; the comparison with the
  radius is exact. With the identity for \<open>rnd\<close> this is \<open>repulsive_force\<close>, with
  \<open>rne53\<close> it is the function on float64 arrays.
\<close>

definition repulsive_force_fl ::
  "(real \<Rightarrow> real) \<Rightarrow> vec2 \<Rightarrow> matrix2 \<Rightarrow> real \<Rightarrow> real \<Rightarrow> world
     \<Rightarrow> (error + pyval \<times> artist list option) \<times> world" where
  "repulsive_force_fl rnd xRobot Map RadiusOfInfluence KObstacles w =
     (let q = map (\<lambda>ob. (rnd (fst xRobot - fst ob), rnd (snd xRobot - snd ob))) Map;
          r = map (\<lambda>v. rnd (sqrt (rnd (rnd ((fst v)\<^sup>2) + rnd ((snd v)\<^sup>2))))) q;
          iInfluential = filter (\<lambda>i. r ! i < RadiusOfInfluence) [0..<length r]
      in if length iInfluential > 0 then
           (let q' = map (\<lambda>i. q ! i) iInfluential;
                r' = map (\<lambda>i. r ! i) iInfluential;
                FRep = PNone;
                hw = plt_plot (map (\<lambda>i. fst (Map ! i)) iInfluential)
                              (map (\<lambda>i. snd (Map ! i)) iInfluential) ''kx'' w
            in (Inr (FRep, Some (fst hw)), snd hw))
         else
           (let FRep = PNone;
                hInfluentialObstacles = None
            in (Inr (FRep, hInfluentialObstacles), w)))"

text \<open>
  The entry of \<^verbatim>\<open>r\<close> that the function computes for one obstacle, and the handle it
  returns when the obstacles \<open>l\<close> are the influential ones.
\<close>

definition distance_fl :: "(real \<Rightarrow> real) \<Rightarrow> vec2 \<Rightarrow> vec2 \<Rightarrow> real" where
  "distance_fl rnd x ob =
     rnd (sqrt (rnd (rnd ((rnd (fst x - fst ob))\<^sup>2) + rnd ((rnd (snd x - snd ob))\<^sup>2))))"

definition marker :: "matrix2 \<Rightarrow> artist list option" where
  "marker l = (if l = [] then None else Some [Line2D (map fst l) (map snd l) ''kx''])"

text \<open>
  \<^verbatim>\<open>
  FAtt = None
  FAtt /= None # Normalization
  return FAtt
  \<close>
\<close>

definition attractive_force :: "real \<Rightarrow> vec2 \<Rightarrow> world \<Rightarrow> (error + pyval) \<times> world" where
  "attractive_force KGoal GoalError w =
     (let FAtt = PNone in
      case itruediv_None FAtt of
        Inl e \<Rightarrow> (Inl e, w)
      | Inr FAtt' \<Rightarrow> (Inr FAtt', w))"

section \<open>main: the simulation loop\<close>

text \<open>
  The inputs of a run. \<^verbatim>\<open>main\<close> draws the obstacle map at random
  (\<^verbatim>\<open>MapSize*random.rand(2, nObstacles)\<close>) and reads the start and the goal from two
  mouse clicks; the model takes the drawn map and the two clicked points as inputs. The
  flag \<^verbatim>\<open>NON_STOP\<close> only selects between a pause and a wait for a key press and has
  no counterpart here.
\<close>

record config =
  Map :: matrix2
  RadiusOfInfluence :: real
  KGoal :: real
  KObstacles :: real
  nMaxSteps :: int

text \<open>The local variables of \<^verbatim>\<open>main\<close> that the loop reads and writes.\<close>

record locals =
  xRobot :: vec2
  GoalError :: vec2
  k :: int
  hRob :: "artist list"

text \<open>
  \<^verbatim>\<open>DrawRobot\<close> is imported from the module \<^verbatim>\<open>utils.DrawRobot\<close>, outside the
  notebook. It is a parameter, taken to return normally: from the pose
  \<^verbatim>\<open>(x, y, theta)\<close> and the artists of the figure it gives the list of handles it
  returns and the artists of the figure afterwards.
\<close>

type_synonym drawrobot = "real \<times> real \<times> real \<Rightarrow> artist list \<Rightarrow> artist list \<times> artist list"

definition call_DrawRobot :: "drawrobot \<Rightarrow> vec2 \<Rightarrow> real \<Rightarrow> world \<Rightarrow> artist list \<times> world" where
  "call_DrawRobot DrawRobot x theta w =
     (let hf = DrawRobot (fst x, snd x, theta) (figure w)
      in (fst hf, w\<lparr>figure := snd hf\<rparr>))"

definition vsub :: "vec2 \<Rightarrow> vec2 \<Rightarrow> vec2" where
  "vsub a b = (fst a - fst b, snd a - snd b)"

text \<open>
  The loop body after the two force calls:
  \<^verbatim>\<open>
  FTotal = None
  xRobot += FTotal
  Theta = np.arctan2(FTotal[1, 0], FTotal[0, 0])
  hRob.pop(0).remove()
  hRob = DrawRobot(fig, ax, np.vstack([xRobot, Theta]), ...)
  ...
  if hInfluentialObstacles is not None:
      hInfluentialObstacles.pop(0).remove()
  GoalError =  xRobot - xGoal
  k += 1
  \<close>
\<close>

definition loop_rest ::
  "drawrobot \<Rightarrow> vec2 \<Rightarrow> pyval \<Rightarrow> artist list option \<Rightarrow> pyval \<Rightarrow> locals \<Rightarrow> world
     \<Rightarrow> (error + locals) \<times> world" where
  "loop_rest DrawRobot xGoal FRep hInfluentialObstacles FAtt s w =
     (let FTotal = PNone in
      case ndarray_iadd (xRobot s) FTotal of
        Inl e \<Rightarrow> (Inl e, w)
      | Inr xRobot' \<Rightarrow>
     (case getitem FTotal 1 of
        Inl e \<Rightarrow> (Inl e, w)
      | Inr f1 \<Rightarrow>
     (case getitem FTotal 0 of
        Inl e \<Rightarrow> (Inl e, w)
      | Inr f0 \<Rightarrow>
     (let Theta = arctan2 f1 f0 in
      case pop0 (hRob s) of
        Inl e \<Rightarrow> (Inl e, w)
      | Inr (a, rest) \<Rightarrow>
     (let w1 = artist_remove a w;
          hw = call_DrawRobot DrawRobot xRobot' Theta w1;
          s' = \<lparr>xRobot = xRobot', GoalError = vsub xRobot' xGoal, k = k s + 1, hRob = fst hw\<rparr>
      in case hInfluentialObstacles of
           None \<Rightarrow> (Inr s', snd hw)
         | Some h \<Rightarrow>
             (case pop0 h of
                Inl e \<Rightarrow> (Inl e, snd hw)
              | Inr (b, rest') \<Rightarrow> (Inr s', artist_remove b (snd hw))))))))"

text \<open>
  The whole body: the two force calls, then the rest.
  \<^verbatim>\<open>
  FRep, hInfluentialObstacles = repulsive_force(xRobot, Map, RadiusOfInfluence, KObstacles)
  FAtt = attractive_force(KGoal, GoalError)
  \<close>
  The invocation of \<^verbatim>\<open>attractive_force\<close> is recorded in \<open>attractive_calls\<close>.
\<close>

definition loop_body ::
  "drawrobot \<Rightarrow> config \<Rightarrow> vec2 \<Rightarrow> locals \<Rightarrow> world \<Rightarrow> (error + locals) \<times> world" where
  "loop_body DrawRobot c xGoal s w =
     (case repulsive_force (xRobot s) (Map c) (RadiusOfInfluence c) (KObstacles c) w of
        (Inl e, w1) \<Rightarrow> (Inl e, w1)
      | (Inr (FRep, hInfluentialObstacles), w1) \<Rightarrow>
          (let w2 = w1\<lparr>attractive_calls := attractive_calls w1 @ [GoalError s]\<rparr> in
           case attractive_force (KGoal c) (GoalError s) w2 of
             (Inl e, w3) \<Rightarrow> (Inl e, w3)
           | (Inr FAtt, w3) \<Rightarrow>
               loop_rest DrawRobot xGoal FRep hInfluentialObstacles FAtt s w3))"

lemma itruediv_None_raises: "itruediv_None v = Inl TypeError"
  by (cases v) simp_all

lemma attractive_force_unfold: "attractive_force K e w = (Inl TypeError, w)"
  by (simp add: attractive_force_def)

lemma loop_rest_unfold: "loop_rest D g FRep h FAtt s w = (Inl TypeError, w)"
  by (simp add: loop_rest_def)

lemma repulsive_force_Inr: "\<exists>FRep h. fst (repulsive_force x M R K w) = Inr (FRep, h)"
  by (simp add: repulsive_force_def Let_def)

lemma loop_body_raises: "fst (loop_body D c g s w) = Inl TypeError"
proof -
  obtain FRep h where "fst (repulsive_force (xRobot s) (Map c) (RadiusOfInfluence c) (KObstacles c) w) = Inr (FRep, h)"
    using repulsive_force_Inr by blast
  then obtain w1 where
    "repulsive_force (xRobot s) (Map c) (RadiusOfInfluence c) (KObstacles c) w = (Inr (FRep, h), w1)"
    by (cases "repulsive_force (xRobot s) (Map c) (RadiusOfInfluence c) (KObstacles c) w") simp
  then show ?thesis
    by (simp add: loop_body_def attractive_force_unfold)
qed

lemma loop_body_k: "loop_body D c g s w = (Inr s', w') \<Longrightarrow> k s' = k s + 1"
  using loop_body_raises [of D c g s w] by simp

text \<open>
  \<^verbatim>\<open>
  while linalg.norm(GoalError) > 1 and k < nMaxSteps:
      <body>
  \<close>
  Each completed body adds one to \<^verbatim>\<open>k\<close>, so the loop is a total function.
\<close>

function main_loop ::
  "drawrobot \<Rightarrow> config \<Rightarrow> vec2 \<Rightarrow> locals \<Rightarrow> world \<Rightarrow> (error + locals) \<times> world" where
  "main_loop DrawRobot c xGoal s w =
     (if linalg_norm (GoalError s) > 1 \<and> k s < nMaxSteps c then
        (case loop_body DrawRobot c xGoal s w of
           (Inl e, w') \<Rightarrow> (Inl e, w')
         | (Inr s', w') \<Rightarrow> main_loop DrawRobot c xGoal s' w')
      else (Inr s, w))"
  by pat_completeness auto
termination
proof (relation "measure (\<lambda>(D, c, g, s, w). nat (nMaxSteps c - k s))")
  show "wf (measure (\<lambda>(D, c, g, s, w). nat (nMaxSteps c - k s)))"
    by simp
next
  fix DrawRobot c xGoal s w x1 x2 s'
  assume guard: "1 < linalg_norm (GoalError s) \<and> k s < nMaxSteps c"
    and body: "(x1, x2) = loop_body DrawRobot c xGoal s w" and ok: "x1 = Inr s'"
  from body ok have "k s' = k s + 1"
    using loop_body_k [of DrawRobot c xGoal s w s' x2] by simp
  with guard show "((DrawRobot, c, xGoal, s', x2), DrawRobot, c, xGoal, s, w)
      \<in> measure (\<lambda>(D, c, g, s, w). nat (nMaxSteps c - k s))"
    by simp
qed

declare main_loop.simps [simp del]

text \<open>
  \<^verbatim>\<open>main\<close> up to the loop: a new figure, the obstacles (\<^verbatim>\<open>'ro'\<close>), the goal
  (\<^verbatim>\<open>'g*'\<close>), the robot at the start with heading 0, then
  \<^verbatim>\<open>
  xRobot = xStart
  GoalError = xRobot - xGoal
  k = 0
  \<close>
  Window titles and printed messages are left out. The result is the local state when
  the loop is left, or the exception raised.
\<close>

definition main ::
  "drawrobot \<Rightarrow> config \<Rightarrow> vec2 \<Rightarrow> vec2 \<Rightarrow> world \<Rightarrow> (error + locals) \<times> world" where
  "main DrawRobot c xStart xGoal w =
     (let w0 = w\<lparr>figure := []\<rparr>;
          w1 = snd (plt_plot (map fst (Map c)) (map snd (Map c)) ''ro'' w0);
          w2 = snd (plt_plot [fst xGoal] [snd xGoal] ''g*'' w1);
          hw = call_DrawRobot DrawRobot xStart 0 w2;
          s = \<lparr>xRobot = xStart, GoalError = vsub xStart xGoal, k = 0, hRob = fst hw\<rparr>
      in main_loop DrawRobot c xGoal s (snd hw))"

text \<open>
  The source returns nothing. The status of a run that leaves the loop is read off the
  final state: reached when the goal error is within the tolerance 1 of the loop guard,
  exhausted otherwise (the guard then failed on the step count).
\<close>

datatype status = Reached | Exhausted

definition status_of :: "locals \<Rightarrow> status" where
  "status_of s = (if linalg_norm (GoalError s) \<le> 1 then Reached else Exhausted)"

text \<open>
  The columns of \<^verbatim>\<open>Map\<close> that \<^verbatim>\<open>iInfluential\<close> selects, written without indices:
  those at a distance from the robot strictly below the radius.
\<close>

definition influential :: "vec2 \<Rightarrow> real \<Rightarrow> matrix2 \<Rightarrow> matrix2" where
  "influential x R M = filter (\<lambda>ob. sqrt ((fst x - fst ob)\<^sup>2 + (snd x - snd ob)\<^sup>2) < R) M"

section \<open>Auxiliary facts\<close>

lemma sqrt_less_iff_sq: "0 \<le> b \<Longrightarrow> (sqrt a < b) = (a < b\<^sup>2)"
  using real_sqrt_less_iff [of a "b\<^sup>2"] by simp

lemma sqrt_25: "sqrt 25 = 5"
  by (rule real_sqrt_unique) simp_all


text \<open>Selecting by index and then reading the entries is filtering the entries.\<close>

lemma nth_filter_upt:
  "map (\<lambda>i. g (xs ! i)) (filter (\<lambda>i. P (xs ! i)) [0..<length xs]) = map g (filter P xs)"
proof -
  have "map (\<lambda>i. g (xs ! i)) (filter (\<lambda>i. P (xs ! i)) [0..<length xs]) =
        map g (map ((!) xs) (filter (P \<circ> (!) xs) [0..<length xs]))"
    by (simp add: comp_def)
  also have "\<dots> = map g (filter P (map ((!) xs) [0..<length xs]))"
    by (simp only: filter_map)
  also have "\<dots> = map g (filter P xs)"
    by (simp only: map_nth)
  finally show ?thesis .
qed

text \<open>
  What \<^verbatim>\<open>repulsive_force\<close> returns, in closed form: the force is \<^verbatim>\<open>None\<close> on both
  branches; the handle is the line through the influential obstacles, or \<^verbatim>\<open>None\<close> when
  there is none.
\<close>

lemma repulsive_force_alt:
  "repulsive_force x M R K w =
     (if influential x R M = [] then (Inr (PNone, None), w)
      else (Inr (PNone, Some [Line2D (map fst (influential x R M)) (map snd (influential x R M)) ''kx'']),
            w\<lparr>figure := figure w @ [Line2D (map fst (influential x R M)) (map snd (influential x R M)) ''kx'']\<rparr>))"
proof -
  let ?P = "\<lambda>ob. sqrt ((fst x - fst ob)\<^sup>2 + (snd x - snd ob)\<^sup>2) < R"
  let ?r = "map (\<lambda>v. sqrt ((fst v)\<^sup>2 + (snd v)\<^sup>2)) (map (\<lambda>ob. (fst x - fst ob, snd x - snd ob)) M)"
  let ?I = "filter (\<lambda>i. ?r ! i < R) [0..<length ?r]"
  have I: "?I = filter (\<lambda>i. ?P (M ! i)) [0..<length M]"
    by (rule filter_cong) auto
  have m: "map (\<lambda>i. g (M ! i)) ?I = map g (influential x R M)" for g :: "vec2 \<Rightarrow> real"
    unfolding I influential_def by (rule nth_filter_upt)
  have e: "(length ?I > 0) = (influential x R M \<noteq> [])"
  proof -
    have "length ?I = length (map (\<lambda>i. fst (M ! i)) ?I)"
      by (rule length_map [symmetric])
    also have "\<dots> = length (map fst (influential x R M))"
      by (rule arg_cong [OF m])
    also have "\<dots> = length (influential x R M)"
      by (rule length_map)
    finally have "(0 < length ?I) = (0 < length (influential x R M))"
      by (rule arg_cong)
    also have "\<dots> = (influential x R M \<noteq> [])"
      by (rule length_greater_0_conv)
    finally show ?thesis .
  qed
  show ?thesis
    unfolding repulsive_force_def Let_def plt_plot_def fst_conv snd_conv m e
    by simp
qed

lemma repulsive_force_calls:
  "attractive_calls (snd (repulsive_force x M R K w)) = attractive_calls w"
  by (simp add: repulsive_force_alt)

lemma loop_body_calls:
  "attractive_calls (snd (loop_body D c g s w)) = attractive_calls w @ [GoalError s]"
proof -
  obtain res w1 where r: "repulsive_force (xRobot s) (Map c) (RadiusOfInfluence c) (KObstacles c) w = (res, w1)"
    by (cases "repulsive_force (xRobot s) (Map c) (RadiusOfInfluence c) (KObstacles c) w")
  then have w1: "attractive_calls w1 = attractive_calls w"
    using repulsive_force_calls [of "xRobot s" "Map c" "RadiusOfInfluence c" "KObstacles c" w] by simp
  from r obtain F h where "res = Inr (F, h)"
    using repulsive_force_Inr [of "xRobot s" "Map c" "RadiusOfInfluence c" "KObstacles c" w] by auto
  with r w1 show ?thesis
    by (simp add: loop_body_def attractive_force_unfold)
qed

text \<open>The loop, unfolded once: left at once when the guard fails, aborted in the first body otherwise.\<close>

lemma main_loop_exit:
  "\<not> (linalg_norm (GoalError s) > 1 \<and> k s < nMaxSteps c) \<Longrightarrow> main_loop D c g s w = (Inr s, w)"
  by (subst main_loop.simps) auto

lemma main_loop_enter:
  assumes "linalg_norm (GoalError s) > 1" and "k s < nMaxSteps c"
  shows "main_loop D c g s w = (Inl TypeError, snd (loop_body D c g s w))"
proof -
  obtain w' where "loop_body D c g s w = (Inl TypeError, w')"
    using loop_body_raises [of D c g s w] by (cases "loop_body D c g s w") simp
  with assms show ?thesis
    by (subst main_loop.simps) simp
qed

lemma main_loop_calls:
  "\<exists>l. attractive_calls (snd (main_loop D c g s w)) = attractive_calls w @ l
     \<and> list_all (\<lambda>e. 1 < linalg_norm e) l"
proof (cases "linalg_norm (GoalError s) > 1 \<and> k s < nMaxSteps c")
  case True
  then have "attractive_calls (snd (main_loop D c g s w)) = attractive_calls w @ [GoalError s]"
    by (simp add: main_loop_enter loop_body_calls)
  moreover have "list_all (\<lambda>e. 1 < linalg_norm e) [GoalError s]"
    using True by simp
  ultimately show ?thesis by blast
next
  case False
  then have "attractive_calls (snd (main_loop D c g s w)) = attractive_calls w @ []"
    by (simp add: main_loop_exit)
  then show ?thesis by force
qed

lemma main_world_calls:
  "attractive_calls (snd (call_DrawRobot D x0 0
      (snd (plt_plot xs ys f (snd (plt_plot xs' ys' f' (w\<lparr>figure := []\<rparr>))))))) = attractive_calls w"
  by (simp add: call_DrawRobot_def plt_plot_def Let_def)

subsection \<open>Rounding to float64 at given numbers\<close>

text \<open>
  With \<open>u\<close> the distance between neighbouring floats around \<open>x\<close>, a multiple of \<open>u\<close>
  closer to \<open>x\<close> than half of \<open>u\<close> is the rounding of \<open>x\<close>; at a tie it is the
  multiple with the even factor.
\<close>

lemma rne53_exponent:
  assumes u: "u = 2 powr (of_int e)" and lo: "u * 2 ^ 52 \<le> \<bar>x\<bar>" and hi: "\<bar>x\<bar> < u * 2 ^ 53"
  shows "\<lfloor>log 2 \<bar>x\<bar>\<rfloor> - 52 = e" and "x \<noteq> 0"
proof -
  have up: "0 < u" using u by simp
  with lo have xp: "0 < \<bar>x\<bar>"
    by (meson less_le_trans mult_pos_pos zero_less_numeral zero_less_power)
  then show "x \<noteq> 0" by simp
  have a: "2 powr (of_int (e + 52)) = u * 2 ^ 52"
    by (simp add: u powr_add)
  have b: "2 powr (of_int (e + 52) + 1) = u * 2 ^ 53"
    by (simp add: u powr_add)
  have "of_int (e + 52) \<le> log 2 \<bar>x\<bar>"
    using lo xp a by (simp add: le_log_iff del: of_int_add)
  moreover have "log 2 \<bar>x\<bar> < of_int (e + 52) + 1"
    using hi xp b by (simp add: log_less_iff del: of_int_add)
  ultimately have "\<lfloor>log 2 \<bar>x\<bar>\<rfloor> = e + 52"
    by (simp add: floor_eq_iff del: of_int_add)
  then show "\<lfloor>log 2 \<bar>x\<bar>\<rfloor> - 52 = e" by simp
qed

lemma rne53_near:
  assumes u: "u = 2 powr (of_int e)" and lo: "u * 2 ^ 52 \<le> \<bar>x\<bar>" and hi: "\<bar>x\<bar> < u * 2 ^ 53"
    and near: "\<bar>\<bar>x\<bar> - of_int n * u\<bar> < u / 2"
  shows "rne53 x = sgn x * of_int n * u"
proof -
  have up: "0 < u" using u by simp
  note ex = rne53_exponent [OF u lo hi]
  define m where "m = \<bar>x\<bar> / u"
  have mn: "\<bar>m - of_int n\<bar> < 1 / 2"
  proof -
    have "m - of_int n = (\<bar>x\<bar> - of_int n * u) / u"
      using up by (simp add: m_def field_simps)
    then have "\<bar>m - of_int n\<bar> = \<bar>\<bar>x\<bar> - of_int n * u\<bar> / u"
      using up by (simp add: abs_divide)
    also have "\<dots> < (u / 2) / u"
      using near up by (simp add: divide_strict_right_mono)
    finally show ?thesis using up by simp
  qed
  have pick: "(if m - of_int \<lfloor>m\<rfloor> < 1 / 2 then \<lfloor>m\<rfloor>
               else if 1 / 2 < m - of_int \<lfloor>m\<rfloor> then \<lfloor>m\<rfloor> + 1
               else if even \<lfloor>m\<rfloor> then \<lfloor>m\<rfloor> else \<lfloor>m\<rfloor> + 1) = n"
  proof (cases "of_int n \<le> m")
    case True
    with mn have "\<lfloor>m\<rfloor> = n" by (simp add: floor_eq_iff abs_less_iff)
    with mn True show ?thesis by (simp add: abs_less_iff)
  next
    case False
    with mn have f: "\<lfloor>m\<rfloor> = n - 1" by (simp add: floor_eq_iff abs_less_iff)
    with mn False show ?thesis by (simp add: abs_less_iff)
  qed
  show ?thesis
    unfolding rne53_def Let_def ex(1) u [symmetric] m_def [symmetric]
    using ex(2) pick by simp
qed

lemma rne53_tie_even:
  assumes u: "u = 2 powr (of_int e)" and lo: "u * 2 ^ 52 \<le> \<bar>x\<bar>" and hi: "\<bar>x\<bar> < u * 2 ^ 53"
    and tie: "\<bar>x\<bar> = of_int n * u + u / 2" and ev: "even n"
  shows "rne53 x = sgn x * of_int n * u"
proof -
  have up: "0 < u" using u by simp
  note ex = rne53_exponent [OF u lo hi]
  define m where "m = \<bar>x\<bar> / u"
  have mn: "m = of_int n + 1 / 2"
    using up tie by (simp add: m_def field_simps)
  then have f: "\<lfloor>m\<rfloor> = n" by (simp add: floor_eq_iff)
  have pick: "(if m - of_int \<lfloor>m\<rfloor> < 1 / 2 then \<lfloor>m\<rfloor>
               else if 1 / 2 < m - of_int \<lfloor>m\<rfloor> then \<lfloor>m\<rfloor> + 1
               else if even \<lfloor>m\<rfloor> then \<lfloor>m\<rfloor> else \<lfloor>m\<rfloor> + 1) = n"
    unfolding f using mn ev by simp
  show ?thesis
    unfolding rne53_def Let_def ex(1) u [symmetric] m_def [symmetric]
    using ex(2) pick by simp
qed


subsection \<open>The function with explicit rounding\<close>

lemma repulsive_force_is_fl: "repulsive_force x M R K w = repulsive_force_fl (\<lambda>a. a) x M R K w"
  by (simp add: repulsive_force_def repulsive_force_fl_def)

lemma repulsive_force_fl_alt:
  "repulsive_force_fl rnd x M R K w =
     (Inr (PNone, marker (filter (\<lambda>ob. distance_fl rnd x ob < R) M)),
      w\<lparr>figure := figure w @ (case marker (filter (\<lambda>ob. distance_fl rnd x ob < R) M) of
                                 None \<Rightarrow> [] | Some h \<Rightarrow> h)\<rparr>)"
proof -
  let ?P = "\<lambda>ob. distance_fl rnd x ob < R"
  let ?r = "map (\<lambda>v. rnd (sqrt (rnd (rnd ((fst v)\<^sup>2) + rnd ((snd v)\<^sup>2)))))
              (map (\<lambda>ob. (rnd (fst x - fst ob), rnd (snd x - snd ob))) M)"
  let ?I = "filter (\<lambda>i. ?r ! i < R) [0..<length ?r]"
  have I: "?I = filter (\<lambda>i. ?P (M ! i)) [0..<length M]"
    by (rule filter_cong) (auto simp: distance_fl_def)
  have m: "map (\<lambda>i. g (M ! i)) ?I = map g (filter ?P M)" for g :: "vec2 \<Rightarrow> real"
    unfolding I by (rule nth_filter_upt)
  have e: "(length ?I > 0) = (filter ?P M \<noteq> [])"
  proof -
    have "length ?I = length (map (\<lambda>i. fst (M ! i)) ?I)"
      by (rule length_map [symmetric])
    also have "\<dots> = length (map fst (filter ?P M))"
      by (rule arg_cong [OF m])
    also have "\<dots> = length (filter ?P M)"
      by (rule length_map)
    finally have "(0 < length ?I) = (0 < length (filter ?P M))"
      by (rule arg_cong)
    also have "\<dots> = (filter ?P M \<noteq> [])"
      by (rule length_greater_0_conv)
    finally show ?thesis .
  qed
  show ?thesis
    unfolding repulsive_force_fl_def Let_def plt_plot_def fst_conv snd_conv m e
    by (simp add: marker_def)
qed

lemma ulp_24: "(1::real) / 2 ^ 24 = 2 powr (of_int (- 24))"
  by (simp add: powr_minus_divide)

lemma ulp_23: "(1::real) / 2 ^ 23 = 2 powr (of_int (- 23))"
  by (simp add: powr_minus_divide)

lemma rne53_neg_a: "rne53 (- 528620260) = - 528620260"
  using rne53_near [OF ulp_24, of "- 528620260" 8868776283996160]
  by simp

lemma rne53_neg_b: "rne53 (- 555051273) = - 555051273"
  using rne53_near [OF ulp_23, of "- 555051273" 4656107549097984]
  by simp

lemma rne53_sq_a: "rne53 279439379282467600 = 279439379282467584"
  using rne53_tie_even [of "2 powr (of_int 5)" 5 279439379282467600 8732480602577112]
  by simp

lemma rne53_sq_b: "rne53 308081915658920529 = 308081915658920512"
  using rne53_near [of "2 powr (of_int 6)" 6 308081915658920529 4813779932170633]
  by simp

lemma rne53_sum: "rne53 587521294941388096 = 587521294941388032"
  using rne53_tie_even [of "2 powr (of_int 7)" 7 587521294941388096 4590010116729594]
  by simp

lemma sqrt_bounds:
  "766499377 - 3 / 2 ^ 24 < sqrt 587521294941388032"
  "sqrt 587521294941388032 < 766499377 - 1 / 2 ^ 24"
proof -
  show "766499377 - 3 / 2 ^ 24 < sqrt 587521294941388032"
    by (rule real_less_rsqrt) (simp add: power2_eq_square)
  show "sqrt 587521294941388032 < 766499377 - 1 / 2 ^ 24"
    by (rule real_less_lsqrt) (simp_all add: power2_eq_square)
qed

lemma rne53_sqrt: "rne53 (sqrt 587521294941388032) = 766499377 - 1 / 2 ^ 23"
proof -
  define y :: real where "y = sqrt 587521294941388032"
  have b: "766499377 - 3 / 2 ^ 24 < y" "y < 766499377 - 1 / 2 ^ 24"
    using sqrt_bounds by (simp_all add: y_def)
  have p: "0 < y" using b by simp
  have lo: "1 / 2 ^ 23 * 2 ^ 52 \<le> \<bar>y\<bar>" using b by simp
  have hi: "\<bar>y\<bar> < 1 / 2 ^ 23 * 2 ^ 53" using b by simp
  have n1: "y - 6429862805897215 / 2 ^ 23 < 1 / 2 ^ 24"
    using b by simp
  have n2: "- (y - 6429862805897215 / 2 ^ 23) < 1 / 2 ^ 24"
    using b by simp
  have near0: "\<bar>y - 6429862805897215 / 2 ^ 23\<bar> < 1 / 2 ^ 24"
    by (rule abs_less_iff [THEN iffD2]) (rule conjI [OF n1 n2])
  have eq1: "\<bar>\<bar>y\<bar> - of_int 6429862805897215 * (1 / 2 ^ 23)\<bar> = \<bar>y - 6429862805897215 / 2 ^ 23\<bar>"
    using p by simp
  have eq2: "(1::real) / 2 ^ 23 / 2 = 1 / 2 ^ 24"
    by simp
  have near: "\<bar>\<bar>y\<bar> - of_int 6429862805897215 * (1 / 2 ^ 23)\<bar> < 1 / 2 ^ 23 / 2"
    unfolding eq1 eq2 by (rule near0)
  have "rne53 y = sgn y * of_int 6429862805897215 * (1 / 2 ^ 23)"
    by (rule rne53_near [OF ulp_23 lo hi near])
  then show ?thesis using p by (simp add: y_def)
qed


lemma pythagorean: "sqrt ((0 - 528620260)\<^sup>2 + (0 - 555051273)\<^sup>2) = (766499377::real)"
  by (rule real_sqrt_unique) simp_all

lemma distance_fl_boundary:
  "distance_fl rne53 (0, 0) (528620260, 555051273) = 766499377 - 1 / 2 ^ 23"
  by (simp add: distance_fl_def rne53_neg_a rne53_neg_b rne53_sq_a rne53_sq_b rne53_sum rne53_sqrt)

lemma ulp_48: "(1::real) / 2 ^ 48 = 2 powr (of_int (- 48))"
  by (simp add: powr_minus_divide)

lemma ulp_49: "(1::real) / 2 ^ 49 = 2 powr (of_int (- 49))"
  by (simp add: powr_minus_divide)

lemma ulp_50: "(1::real) / 2 ^ 50 = 2 powr (of_int (- 50))"
  by (simp add: powr_minus_divide)

lemma ulp_51: "(1::real) / 2 ^ 51 = 2 powr (of_int (- 51))"
  by (simp add: powr_minus_divide)

lemma rne53_small:
  "rne53 (- 3) = - 3" "rne53 (- 4) = - 4" "rne53 9 = 9" "rne53 16 = 16" "rne53 25 = 25" "rne53 5 = 5"
  using rne53_near [OF ulp_51, of "- 3" 6755399441055744]
        rne53_near [OF ulp_50, of "- 4" 4503599627370496]
        rne53_near [OF ulp_49, of 9 5066549580791808]
        rne53_near [OF ulp_48, of 16 4503599627370496]
        rne53_near [OF ulp_48, of 25 7036874417766400]
        rne53_near [OF ulp_50, of 5 5629499534213120]
  by simp_all

lemma distance_fl_345: "distance_fl rne53 (0, 0) (3, 4) = 5"
  by (simp add: distance_fl_def rne53_small sqrt_25)

lemma rne53_3: "rne53 3 = 3"
  using rne53_near [OF ulp_51, of 3 6755399441055744] by simp

lemma sqrt_9: "sqrt 9 = 3"
  by (rule real_sqrt_unique) simp_all

lemma rne53_0: "rne53 0 = 0"
  by (simp add: rne53_def)

lemma distance_fl_03: "distance_fl rne53 (0, 0) (0, 3) = 3"
  by (simp add: distance_fl_def rne53_small rne53_3 rne53_0 sqrt_9)


section \<open>The claims\<close>

text \<open>
  Claim C1. For the robot at (1,2), the obstacles (1.1,2.2), (2.4,1.4), (3.5,4.5), radius 2
  and gain 200, \<^verbatim>\<open>repulsive_force\<close> should mark exactly the obstacles closer than 2 and
  return the summed force, about (-7117.98, -14205.83). The code marks the first two
  obstacles (distances about 0.22 and 1.52; the third is at about 3.54), but the force it
  returns is \<^verbatim>\<open>None\<close>, not the vector of the notebook's expected output.
\<close>

theorem repulsive_force_example:
  "repulsive_force (1, 2) [(11/10, 22/10), (24/10, 14/10), (35/10, 45/10)] 2 200 w =
   (Inr (PNone, Some [Line2D [11/10, 24/10] [22/10, 14/10] ''kx'']),
    w\<lparr>figure := figure w @ [Line2D [11/10, 24/10] [22/10, 14/10] ''kx'']\<rparr>)"
  by (simp add: repulsive_force_alt influential_def sqrt_less_iff_sq power2_eq_square)

text \<open>
  Claim C2. \<^verbatim>\<open>attractive_force(Kgoal, e)\<close> should return \<open>- Kgoal * e / norm e\<close>, about
  (-1.28130, -0.77992) for Kgoal = 1.5 and e = (2.3, 1.4). On that input the code raises a
  TypeError at \<^verbatim>\<open>FAtt /= None\<close> and returns nothing.
\<close>

theorem attractive_force_example:
  "attractive_force (3/2) (23/10, 14/10) w = (Inl TypeError, w)"
  by (simp add: attractive_force_def)

text \<open>
  Claim C3. With no obstacle strictly within the radius, \<^verbatim>\<open>repulsive_force\<close> should
  return the zero vector. For the robot at (1,2), the single obstacle (3.5,4.5) and radius
  2 the code takes the branch "Nothing close" and returns \<^verbatim>\<open>None\<close> as the force.
\<close>

theorem repulsive_force_nothing_close:
  "repulsive_force (1, 2) [(35/10, 45/10)] 2 200 w = (Inr (PNone, None), w)"
  by (simp add: repulsive_force_alt influential_def sqrt_less_iff_sq power2_eq_square)

text \<open>
  Claim C4, as stated: an obstacle whose distance to the robot equals the radius of
  influence exactly is not classified as influential. The robot at the origin and the
  obstacle (528620260, 555051273) are at the distance 766499377 exactly, and all these
  numbers are float64 values. In float64 the squares round to 279439379282467584 and
  308081915658920512, their sum to 587521294941388032 and its root to
  766499377 - 1/8388608: below the radius 766499377, so the obstacle is marked.
\<close>

theorem boundary_obstacle_marked_by_rounding:
  "sqrt ((0 - 528620260)\<^sup>2 + (0 - 555051273)\<^sup>2) = (766499377::real)
   \<and> distance_fl rne53 (0, 0) (528620260, 555051273) = 766499377 - 1 / 2 ^ 23
   \<and> fst (repulsive_force_fl rne53 (0, 0) [(528620260, 555051273)] 766499377 200
          \<lparr>figure = [], attractive_calls = []\<rparr>)
       = Inr (PNone, Some [Line2D [528620260] [555051273] ''kx''])"
  by (simp add: pythagorean repulsive_force_fl_alt distance_fl_boundary marker_def
           del: power2_eq_square)

text \<open>
  Claim C4, amended: the cutoff is strict on the distance as computed. For every
  rounding, the obstacles that \<^verbatim>\<open>repulsive_force\<close> marks are exactly those whose
  computed distance is strictly below the radius; an obstacle whose computed distance
  equals the radius is not marked, whatever obstacles \<open>A\<close> and \<open>B\<close> stand beside it.
  Nothing is said of the force returned.
\<close>

theorem boundary_by_computed_distance:
  assumes "distance_fl rnd x ob = R"
  shows "(\<exists>F w'. repulsive_force_fl rnd x (A @ ob # B) R K w =
            (Inr (F, marker (filter (\<lambda>p. distance_fl rnd x p < R) (A @ B))), w'))
       \<and> (\<exists>F w'. repulsive_force_fl rnd x M R K w =
            (Inr (F, marker (filter (\<lambda>p. distance_fl rnd x p < R) M)), w'))"
  using assms by (simp add: repulsive_force_fl_alt)

text \<open>
  In float64, with the robot at the origin and the radius 5: the obstacle (3,4) has the
  computed distance 5 and is not marked, the obstacle (0,3) beside it has the computed
  distance 3 and is.
\<close>

theorem boundary_by_computed_distance_witness:
  "distance_fl rne53 (0, 0) (3, 4) = 5
   \<and> (\<exists>F w'. repulsive_force_fl rne53 (0, 0) [(0, 3), (3, 4)] 5 200
                 \<lparr>figure = [], attractive_calls = []\<rparr>
               = (Inr (F, Some [Line2D [0] [3] ''kx'']), w'))"
  using boundary_by_computed_distance [OF distance_fl_345, of "[(0, 3)]" "[]" 200
          "\<lparr>figure = [], attractive_calls = []\<rparr>" "[]"]
  by (simp add: distance_fl_345 distance_fl_03 marker_def)

text \<open>
  Claim C5. The loop should end after at most \<^verbatim>\<open>nMaxSteps\<close> ticks as reached or as
  exhausted. From the start (0,0) with the goal (5,0), one obstacle at (3,3) and the
  default parameters, the run ends in neither: the first tick raises a TypeError in
  \<^verbatim>\<open>attractive_force\<close>, whatever \<^verbatim>\<open>DrawRobot\<close> draws.
\<close>

theorem main_example_raises:
  "fst (main D \<lparr>Map = [(3, 3)], RadiusOfInfluence = 10, KGoal = 1, KObstacles = 250, nMaxSteps = 300\<rparr>
         (0, 0) (5, 0) w) = Inl TypeError"
  by (simp add: main_def Let_def main_loop_enter linalg_norm_def vsub_def)

text \<open>
  Claim C6. When the start is the goal, the loop is left before its first tick: the run
  returns with \<^verbatim>\<open>k = 0\<close>, the robot where it started and the status reached, and
  \<^verbatim>\<open>attractive_force\<close> has not been invoked. For any start and goal, every goal error
  that \<^verbatim>\<open>attractive_force\<close> is invoked with during the run has a magnitude above zero
  (the loop guard asks for more than 1).
\<close>

theorem start_at_goal_reached:
  "(\<exists>s. main D c x x w = (Inr s, snd (main D c x x w)) \<and> k s = 0 \<and> xRobot s = x
        \<and> status_of s = Reached)
   \<and> attractive_calls (snd (main D c x x w)) = attractive_calls w
   \<and> (\<exists>l. attractive_calls (snd (main D c xStart xGoal w)) = attractive_calls w @ l
          \<and> list_all (\<lambda>e. 0 < linalg_norm e) l)"
proof -
  let ?w = "snd (call_DrawRobot D x 0 (snd (plt_plot [fst x] [snd x] ''g*''
              (snd (plt_plot (map fst (Map c)) (map snd (Map c)) ''ro'' (w\<lparr>figure := []\<rparr>))))))"
  let ?s = "\<lparr>xRobot = x, GoalError = vsub x x, k = 0,
             hRob = fst (call_DrawRobot D x 0 (snd (plt_plot [fst x] [snd x] ''g*''
              (snd (plt_plot (map fst (Map c)) (map snd (Map c)) ''ro'' (w\<lparr>figure := []\<rparr>))))))\<rparr>"
  have g: "\<not> (linalg_norm (GoalError ?s) > 1 \<and> k ?s < nMaxSteps c)"
    by (simp add: linalg_norm_def vsub_def)
  have m: "main D c x x w = (Inr ?s, ?w)"
    unfolding main_def Let_def by (rule main_loop_exit [OF g])
  have st: "status_of ?s = Reached"
    by (simp add: status_of_def linalg_norm_def vsub_def)
  have a: "attractive_calls ?w = attractive_calls w"
    by (rule main_world_calls)
  obtain l where l: "attractive_calls (snd (main D c xStart xGoal w)) = attractive_calls w @ l"
    and p: "list_all (\<lambda>e. 1 < linalg_norm e) l"
    unfolding main_def Let_def
    using main_loop_calls main_world_calls by metis
  from p have "list_all (\<lambda>e. 0 < linalg_norm e) l"
    by (induction l) auto
  with l m st a show ?thesis
    by auto
qed

text \<open>
  Claim C7. A tick should set \<^verbatim>\<open>FTotal = FAtt + FRep\<close>, add it to the position and take
  the heading from it. The code assigns \<^verbatim>\<open>FTotal = None\<close> under the comment that asks
  for the sum, so \<^verbatim>\<open>xRobot += FTotal\<close> raises a TypeError for every pair of forces; and
  the tick as a whole raises already in \<^verbatim>\<open>attractive_force\<close>. No tick updates the
  position or the heading.
\<close>

theorem tick_never_updates:
  "fst (loop_rest D g FRep h FAtt s w) = Inl TypeError \<and> fst (loop_body D c g s w) = Inl TypeError"
  by (simp add: loop_rest_unfold loop_body_raises)






text \<open>
  Claim C10. For every gain and every goal error, \<^verbatim>\<open>attractive_force\<close> raises a
  TypeError at \<^verbatim>\<open>FAtt /= None\<close>; it never reaches its return statement, so it returns no
  force.
\<close>

theorem attractive_force_always_raises:
  "attractive_force Kg e w = (Inl TypeError, w) \<and> (\<forall>F. fst (attractive_force Kg e w) \<noteq> Inr F)"
  by (simp add: attractive_force_unfold)

end
